theory Spec2Isabelle
  imports Main "HOL-Library.AList" "HOL-Library.Multiset"
begin

section \<open>JavaScript values\<close>

text \<open>
  The payloads the clients handle are parsed JSON. A number is an integer here: the
  status codes the client compares are integers, and \<open>-0 === 0\<close> holds in
  JavaScript as it does for \<open>int\<close>. An object is the list of its properties, each name
  once.
\<close>

datatype jsval =
    JUndefined
  | JNull
  | JBool bool
  | JNum int
  | JStr string
  | JArr "jsval list"
  | JObj "(string \<times> jsval) list"

text \<open>What \<open>if (v)\<close> and \<open>!v\<close> test.\<close>

fun truthy :: "jsval \<Rightarrow> bool" where
  "truthy JUndefined = False"
| "truthy JNull = False"
| "truthy (JBool b) = b"
| "truthy (JNum n) = (n \<noteq> 0)"
| "truthy (JStr s) = (s \<noteq> [])"
| "truthy (JArr xs) = True"
| "truthy (JObj kvs) = True"

text \<open>
  The errors that are thrown: \<open>APIError status data\<close> of the API clients, the
  \<open>TypeError\<close> of the language (a property read on \<open>null\<close> or \<open>undefined\<close>, a call of
  something that is no function), and \<open>new Error(message)\<close>.
\<close>

datatype error =
    APIError jsval jsval
  | TypeError
  | Error string

text \<open>\<open>e.data\<close> of a caught error: only an \<open>APIError\<close> has the property.\<close>

fun error_data :: "error \<Rightarrow> jsval" where
  "error_data (APIError st d) = d"
| "error_data TypeError = JUndefined"
| "error_data (Error msg) = JUndefined"

text \<open>The decimal name of an array index, as a property name.\<close>

fun digit_char :: "nat \<Rightarrow> char" where
  "digit_char n = char_of (48 + n)"

fun index_key :: "nat \<Rightarrow> string" where
  "index_key n = (if n < 10 then [digit_char n] else index_key (n div 10) @ [digit_char (n mod 10)])"

declare index_key.simps [simp del]

text \<open>
  \<open>v[i]\<close> for a number \<open>i\<close>: a \<open>TypeError\<close> on \<open>null\<close> and \<open>undefined\<close>, the element
  of an array, the character of a string, the property of that name of an object, and
  \<open>undefined\<close> wherever there is none.
\<close>

fun index :: "jsval \<Rightarrow> nat \<Rightarrow> error + jsval" where
  "index JUndefined i = Inl TypeError"
| "index JNull i = Inl TypeError"
| "index (JBool b) i = Inr JUndefined"
| "index (JNum n) i = Inr JUndefined"
| "index (JStr s) i = Inr (if i < length s then JStr [s ! i] else JUndefined)"
| "index (JArr xs) i = Inr (if i < length xs then xs ! i else JUndefined)"
| "index (JObj kvs) i = Inr (case map_of kvs (index_key i) of None \<Rightarrow> JUndefined | Some v \<Rightarrow> v)"

text \<open>
  \<open>v.name\<close> for the property names of the payloads (\<open>persdata\<close>, \<open>stg\<close>, \<open>po_url\<close>),
  which no prototype defines: only an object can have them.
\<close>

fun field :: "jsval \<Rightarrow> string \<Rightarrow> error + jsval" where
  "field JUndefined k = Inl TypeError"
| "field JNull k = Inl TypeError"
| "field (JObj kvs) k = Inr (case map_of kvs k of None \<Rightarrow> JUndefined | Some v \<Rightarrow> v)"
| "field v k = Inr JUndefined"

section \<open>The authenticated API client\<close>

type_synonym params = "(string \<times> jsval) list"

text \<open>The parsed response of the backend, with the two properties the client reads.\<close>

record response =
  status :: jsval
  data :: jsval

text \<open>
  The backend answers a request given the requests sent before it: with a response, or
  the request throws.
\<close>

type_synonym backend = "params list \<Rightarrow> params \<Rightarrow> error + response"

text \<open>
  The client: its response cache, the session of the user, and the requests it has sent
  to the backend so far.
\<close>

record client =
  cache :: "string \<rightharpoonup> jsval"
  session :: string
  sent :: "params list"

text \<open>
  Modelled from the spec: the cache object that the base class \<open>AnonymousAPIClient\<close>
  creates (not part of the sources) is a flat in-memory key/value store keyed by string,
  with no expiry: \<open>get\<close> of a key that was never set is \<open>undefined\<close>, \<open>set\<close> binds the
  key to the value.
\<close>

definition cache_get :: "(string \<rightharpoonup> jsval) \<Rightarrow> string \<Rightarrow> jsval" where
  "cache_get c k = (case c k of None \<Rightarrow> JUndefined | Some v \<Rightarrow> v)"

definition cache_set :: "(string \<rightharpoonup> jsval) \<Rightarrow> string \<Rightarrow> jsval \<Rightarrow> (string \<rightharpoonup> jsval)" where
  "cache_set c k v = c(k \<mapsto> v)"

text \<open>
  Modelled from the spec: \<open>request\<close> of the base class \<open>AnonymousAPIClient\<close> (not part of
  the sources) is the remote procedure call: one round trip to the backend, which
  delivers a response or throws.
\<close>

definition request :: "backend \<Rightarrow> params \<Rightarrow> client \<Rightarrow> (error + response) \<times> client" where
  "request backend p st = (backend (sent st) p, st\<lparr>sent := sent st @ [p]\<rparr>)"

text \<open>
  Modelled from the spec: \<open>callWithSession\<close> of the session handler (not part of the
  sources) calls the method with the session of the user and hands on what it returns or
  throws.
\<close>

definition callWithSession ::
  "(string \<Rightarrow> client \<Rightarrow> (error + 'a) \<times> client) \<Rightarrow> client \<Rightarrow> (error + 'a) \<times> client" where
  "callWithSession method st = method (session st) st"

text \<open>The object literal \<open>{ session, ...params }\<close>: a later property of a name replaces the value.\<close>

definition with_session :: "string \<Rightarrow> params \<Rightarrow> params" where
  "with_session s params = fold (\<lambda>(k, v). AList.update k v) params [(''session'', JStr s)]"

definition requestAuthenticated :: "backend \<Rightarrow> params \<Rightarrow> client \<Rightarrow> (error + jsval) \<times> client" where
  "requestAuthenticated backend params =
     callWithSession (\<lambda>s st.
       case request backend (with_session s params) st of
         (Inl e, st') \<Rightarrow> (Inl e, st')
       | (Inr res, st') \<Rightarrow>
           if status res \<noteq> JNum 0 then (Inl (APIError (status res) (data res)), st')
           else
             (case index (data res) 0 of
                Inl e \<Rightarrow> (Inl e, st')
              | Inr d0 \<Rightarrow>
                  if d0 \<noteq> JNum 0 then
                    (case index (data res) 1 of
                       Inl e \<Rightarrow> (Inl e, st')
                     | Inr d1 \<Rightarrow> (Inl (APIError d0 d1), st'))
                  else
                    (case index (data res) 1 of
                       Inl e \<Rightarrow> (Inl e, st')
                     | Inr d1 \<Rightarrow> (Inr d1, st'))))"

definition requestCached ::
  "backend \<Rightarrow> string \<Rightarrow> params \<Rightarrow> client \<Rightarrow> (error + jsval) \<times> client" where
  "requestCached backend cacheKey params st =
     (let cached = cache_get (cache st) cacheKey in
      if truthy cached then (Inr cached, st)
      else
        (case requestAuthenticated backend params st of
           (Inl e, st') \<Rightarrow> (Inl e, st')
         | (Inr resp, st') \<Rightarrow> (Inr resp, st'\<lparr>cache := cache_set (cache st') cacheKey resp\<rparr>)))"

subsection \<open>Faculty and SPO of the personal data\<close>

text \<open>
  The table \<open>course-short-names.json\<close> is data outside the sources, so it is a parameter:
  the list of its properties in the order of \<open>Object.keys\<close>. A faculty has an optional
  \<open>poKey\<close> and the short names of its courses; the property \<open>_source\<close> is a comment and
  is skipped by its name.
\<close>

record course_entry =
  poKey :: "string option"
  courses :: "string list"

type_synonym course_table = "(string \<times> course_entry) list"

text \<open>\<open>s.split(c)\<close> of a string at a one-character separator.\<close>

fun split_on :: "char \<Rightarrow> string \<Rightarrow> string list" where
  "split_on c [] = [[]]"
| "split_on c (x # xs) =
     (if x = c then [] # split_on c xs
      else (case split_on c xs of [] \<Rightarrow> [[x]] | w # ws \<Rightarrow> (x # w) # ws))"

text \<open>
  \<open>v.split('/')\<close> of any value: only a string has the method; on \<open>null\<close> and
  \<open>undefined\<close> the property read throws, on every other value the call of \<open>undefined\<close>
  does.
\<close>

fun js_split :: "jsval \<Rightarrow> char \<Rightarrow> error + string list" where
  "js_split (JStr s) c = Inr (split_on c s)"
| "js_split v c = Inl TypeError"

text \<open>\<open>xs.slice(-n)\<close>: the last \<open>n\<close> elements, all of them when there are fewer.\<close>

definition slice_last :: "nat \<Rightarrow> 'a list \<Rightarrow> 'a list" where
  "slice_last n xs = drop (length xs - n) xs"

text \<open>\<open>xs[0]\<close> of an array: \<open>None\<close> stands for \<open>undefined\<close>.\<close>

fun first :: "'a list \<Rightarrow> 'a option" where
  "first [] = None"
| "first (x # xs) = Some x"

text \<open>The result of \<open>xs.find(p)\<close> on an array of strings: the element, or \<open>undefined\<close>.\<close>

fun found :: "string option \<Rightarrow> jsval" where
  "found None = JUndefined"
| "found (Some x) = JStr x"

text \<open>\<open>courseShortNames[faculty].poKey === poKey\<close> and \<open>courseShortNames[faculty].courses.includes(shortName)\<close>.\<close>

definition poKey_matches :: "course_table \<Rightarrow> string option \<Rightarrow> string \<Rightarrow> bool" where
  "poKey_matches courseShortNames k faculty =
     (case map_of courseShortNames faculty of None \<Rightarrow> False | Some e \<Rightarrow> poKey e = k)"

definition courses_include :: "course_table \<Rightarrow> jsval \<Rightarrow> string \<Rightarrow> bool" where
  "courses_include courseShortNames shortName faculty =
     (case map_of courseShortNames faculty of
        None \<Rightarrow> False
      | Some e \<Rightarrow> shortName \<in> set (map JStr (courses e)))"

definition extractFacultyFromPersonalData :: "course_table \<Rightarrow> jsval \<Rightarrow> error + jsval" where
  "extractFacultyFromPersonalData courseShortNames d =
     (if \<not> truthy d then Inr JNull
      else
        (case field d ''persdata'' of
           Inl e \<Rightarrow> Inl e
         | Inr persdata \<Rightarrow>
             (if \<not> truthy persdata then Inr JNull
              else
                (case field persdata ''stg'' of
                   Inl e \<Rightarrow> Inl e
                 | Inr stg \<Rightarrow>
                     (case field persdata ''po_url'' of
                        Inl e \<Rightarrow> Inl e
                      | Inr po_url \<Rightarrow>
                          (if \<not> truthy stg \<and> \<not> truthy po_url then Inr JNull
                           else
                             (let faculties =
                                    filter (\<lambda>key. key \<noteq> ''_source'') (map fst courseShortNames)
                              in
                                (case js_split po_url (CHR ''/'') of
                                   Inl e \<Rightarrow> Inl e
                                 | Inr parts \<Rightarrow>
                                     (let k = first (slice_last 3 (filter (\<lambda>x. length x > 0) parts));
                                          facultyMatch =
                                            find (poKey_matches courseShortNames k)
                                              (filter (\<lambda>key. key \<noteq> ''_source'') faculties)
                                      in
                                        (if truthy (found facultyMatch) then Inr (found facultyMatch)
                                         else
                                           Inr (found
                                             (find (courses_include courseShortNames stg)
                                                faculties))))))))))))"


subsection \<open>The methods of the client\<close>

definition KEY_GET_TIMETABLE :: string where "KEY_GET_TIMETABLE = ''getTimetable''"
definition KEY_GET_EXAMS :: string where "KEY_GET_EXAMS = ''getExams''"

text \<open>A \<open>Date\<close>, by what the client reads of it.\<close>

record date =
  toDateString :: string
  getDate :: int
  getMonth :: int
  getFullYear :: int

definition thiapp :: "string \<Rightarrow> params \<Rightarrow> params" where
  "thiapp m extra = [(''service'', JStr ''thiapp''), (''method'', JStr m), (''format'', JStr ''json'')] @ extra"




text \<open>The \<open>catch\<close> clause of \<open>getTimetable\<close>.\<close>

definition timetable_catch :: "error \<Rightarrow> error + jsval" where
  "timetable_catch e =
     (if error_data e = JStr ''Query not possible'' \<or> error_data e = JStr ''Time table does not exist''
      then Inr (JObj [(''timetable'', JArr [])])
      else Inl e)"

definition getTimetable :: "backend \<Rightarrow> date \<Rightarrow> bool \<Rightarrow> client \<Rightarrow> (error + jsval) \<times> client" where
  "getTimetable backend d detailed st =
     (let key = KEY_GET_TIMETABLE @ ''-'' @ toDateString d @ ''-'' @ (if detailed then ''true'' else ''false'')
      in case requestCached backend key
                (thiapp ''stpl''
                   [(''day'', JNum (getDate d)), (''month'', JNum (getMonth d + 1)),
                    (''year'', JNum (getFullYear d)), (''details'', JNum (if detailed then 1 else 0))]) st of
           (Inl e, st') \<Rightarrow> (timetable_catch e, st')
         | (Inr res, st') \<Rightarrow>
             (case index res 0 of
                Inl e \<Rightarrow> (timetable_catch e, st')
              | Inr semester \<Rightarrow>
                  (case index res 1 of
                     Inl e \<Rightarrow> (timetable_catch e, st')
                   | Inr holidays \<Rightarrow>
                       (case index res 2 of
                          Inl e \<Rightarrow> (timetable_catch e, st')
                        | Inr timetable \<Rightarrow>
                            (Inr (JObj [(''semester'', semester), (''holidays'', holidays),
                                        (''timetable'', timetable)]), st')))))"

text \<open>The \<open>catch\<close> clause of \<open>getExams\<close>.\<close>

definition exams_catch :: "error \<Rightarrow> error + jsval" where
  "exams_catch e =
     (if error_data e = JStr ''No exam data available'' \<or> error_data e = JStr ''Query not possible''
      then Inr (JArr [])
      else Inl e)"

definition getExams :: "backend \<Rightarrow> client \<Rightarrow> (error + jsval) \<times> client" where
  "getExams backend st =
     (case requestCached backend KEY_GET_EXAMS (thiapp ''exams'' [(''modus'', JStr ''1'')]) st of
        (Inl e, st') \<Rightarrow> (exams_catch e, st')
      | (Inr res, st') \<Rightarrow> (Inr res, st'))"











section \<open>The GraphQL client\<close>

text \<open>
  A query document is identified by its root field and the text interpolated into its
  arguments; the selection of fields below the root is fixed text of each method.
\<close>

datatype gql_query =
    Food string
  | Bus string
  | Train string
  | Parking
  | Charging
  | ClEvents

text \<open>
  The endpoint answers a request given the requests made before it, with the data of
  the response, or the request throws. The network is the requests made so far; the
  console holds what \<open>console.error\<close> was given.
\<close>

type_synonym 'd endpoint = "(string \<times> gql_query) list \<Rightarrow> string \<Rightarrow> gql_query \<Rightarrow> error + 'd"

record network =
  fetched :: "(string \<times> gql_query) list"
  console :: "error list"

text \<open>\<open>request(url, document)\<close> of the library \<open>graphql-request\<close>: one request to the endpoint.\<close>

definition gql_request ::
  "'d endpoint \<Rightarrow> string \<Rightarrow> gql_query \<Rightarrow> network \<Rightarrow> (error + 'd) \<times> network" where
  "gql_request server url q w = (server (fetched w) url q, w\<lparr>fetched := fetched w @ [(url, q)]\<rparr>)"

text \<open>The endpoint of the environment, or the default when it is unset or empty.\<close>

definition GRAPHQL_ENDPOINT :: "string option \<Rightarrow> string" where
  "GRAPHQL_ENDPOINT env =
     (case env of
        None \<Rightarrow> ''https://api.neuland.app/graphql''
      | Some url \<Rightarrow> if url \<noteq> [] then url else ''https://api.neuland.app/graphql'')"

definition performGraphQLQuery ::
  "string option \<Rightarrow> 'd endpoint \<Rightarrow> gql_query \<Rightarrow> network \<Rightarrow> (error + 'd) \<times> network" where
  "performGraphQLQuery env server q w =
     (case gql_request server (GRAPHQL_ENDPOINT env) q w of
        (Inr d, w') \<Rightarrow> (Inr d, w')
      | (Inl e, w') \<Rightarrow> (Inl (Error ''GraphQL query failed''), w'\<lparr>console := console w' @ [e]\<rparr>))"

text \<open>\<open>xs.join(sep)\<close> of an array of strings.\<close>

fun join :: "string \<Rightarrow> string list \<Rightarrow> string" where
  "join sep [] = []"
| "join sep [x] = x"
| "join sep (x # y # ys) = x @ sep @ join sep (y # ys)"

definition quoted :: "string \<Rightarrow> string" where
  "quoted x = [CHR 0x22] @ x @ [CHR 0x22]"

definition getFoodPlan ::
  "string option \<Rightarrow> 'd endpoint \<Rightarrow> string list \<Rightarrow> network \<Rightarrow> (error + 'd) \<times> network" where
  "getFoodPlan env server locations =
     performGraphQLQuery env server (Food (join '','' (map quoted locations)))"

definition getBusPlan ::
  "string option \<Rightarrow> 'd endpoint \<Rightarrow> string \<Rightarrow> network \<Rightarrow> (error + 'd) \<times> network" where
  "getBusPlan env server station = performGraphQLQuery env server (Bus station)"

definition getTrainPlan ::
  "string option \<Rightarrow> 'd endpoint \<Rightarrow> string \<Rightarrow> network \<Rightarrow> (error + 'd) \<times> network" where
  "getTrainPlan env server station = performGraphQLQuery env server (Train station)"

definition getParkingData ::
  "string option \<Rightarrow> 'd endpoint \<Rightarrow> network \<Rightarrow> (error + 'd) \<times> network" where
  "getParkingData env server = performGraphQLQuery env server Parking"

definition getCharingStationData ::
  "string option \<Rightarrow> 'd endpoint \<Rightarrow> network \<Rightarrow> (error + 'd) \<times> network" where
  "getCharingStationData env server = performGraphQLQuery env server Charging"

definition getCampusLifeEvents ::
  "string option \<Rightarrow> 'd endpoint \<Rightarrow> network \<Rightarrow> (error + 'd) \<times> network" where
  "getCampusLifeEvents env server = performGraphQLQuery env server ClEvents"

text \<open>A call of any query method of the client.\<close>

datatype gql_call =
    GetFoodPlan "string list"
  | GetBusPlan string
  | GetTrainPlan string
  | GetParkingData
  | GetCharingStationData
  | GetCampusLifeEvents

fun gql_perform ::
  "string option \<Rightarrow> 'd endpoint \<Rightarrow> gql_call \<Rightarrow> network \<Rightarrow> (error + 'd) \<times> network" where
  "gql_perform env server (GetFoodPlan locations) w = getFoodPlan env server locations w"
| "gql_perform env server (GetBusPlan station) w = getBusPlan env server station w"
| "gql_perform env server (GetTrainPlan station) w = getTrainPlan env server station w"
| "gql_perform env server GetParkingData w = getParkingData env server w"
| "gql_perform env server GetCharingStationData w = getCharingStationData env server w"
| "gql_perform env server GetCampusLifeEvents w = getCampusLifeEvents env server w"

section \<open>The meal plan page\<close>

text \<open>A meal and a day of the food plan, with the properties the page reads here.\<close>

record meal =
  mealId :: string
  restaurant :: string
  category :: string
  allergens :: "string list option"
  flags :: "string list option"

record day =
  timestamp :: string
  meals :: "meal list"

text \<open>
  \<open>showMatch\<close>. The two predicates of \<open>lib/food-utils\<close> are outside the sources and are
  parameters, as are the two selections of the food filter.
\<close>

definition showMatch ::
  "(string list option \<Rightarrow> 'a \<Rightarrow> bool) \<Rightarrow> (string list option \<Rightarrow> 'p \<Rightarrow> bool) \<Rightarrow> 'a \<Rightarrow> 'p \<Rightarrow> meal \<Rightarrow> bool" where
  "showMatch containsSelectedAllergen containsSelectedPreference allergenSelection preferencesSelection m =
     ((\<not> containsSelectedAllergen (allergens m) allergenSelection \<and>
        containsSelectedPreference (flags m) preferencesSelection) \<or>
      containsSelectedAllergen (allergens m) allergenSelection)"

text \<open>\<open>s.includes(sub)\<close> of a string: \<open>sub\<close> occurs in \<open>s\<close>.\<close>

fun starts_with :: "string \<Rightarrow> string \<Rightarrow> bool" where
  "starts_with s [] = True"
| "starts_with [] (y # ys) = False"
| "starts_with (x # xs) (y # ys) = (x = y \<and> starts_with xs ys)"

fun includes_str :: "string \<Rightarrow> string \<Rightarrow> bool" where
  "includes_str [] sub = (sub = [])"
| "includes_str (x # xs) sub = (starts_with (x # xs) sub \<or> includes_str xs sub)"

text \<open>
  What \<open>renderMealDay\<close> puts on the tab of a day, from top to bottom: the header of a
  restaurant, the header of a kind of meal, a list of meal entries, the note that there
  is no data. A meal entry is \<open>renderMealEntry(meal, key)\<close>, kept as its two arguments.
\<close>

datatype node =
    RestaurantHeader string
  | KindHeader string
  | Meals "(string \<times> meal) list"
  | NoMealInfo string

text \<open>\<open>xs.map((meal, idx) => renderMealEntry(meal, `${prefix}${idx}`))\<close>.\<close>

definition entries :: "string \<Rightarrow> meal list \<Rightarrow> (string \<times> meal) list" where
  "entries prefix xs = map (\<lambda>(idx, m). (prefix @ index_key idx, m)) (enumerate 0 xs)"

definition renderMealDay :: "(string \<Rightarrow> string) \<Rightarrow> day \<Rightarrow> node list" where
  "renderMealDay t d =
     (let mensa = filter (\<lambda>x. restaurant x = ''IngolstadtMensa'') (meals d);
          mensaSoups = filter (\<lambda>x. includes_str (category x) ''soup'') mensa;
          mensaFood = filter (\<lambda>x. \<not> includes_str (category x) ''soup'') mensa;
          neuburg = filter (\<lambda>x. restaurant x = ''NeuburgMensa'') (meals d);
          neuburgFood = filter (\<lambda>x. \<not> includes_str (category x) ''soup'') neuburg;
          reimanns = filter (\<lambda>x. restaurant x = ''Reimanns'') (meals d);
          reimannsFood = filter (\<lambda>x. \<not> includes_str (category x) ''salad'') reimanns;
          reimannsSalad = filter (\<lambda>x. includes_str (category x) ''salad'') reimanns;
          canisius = filter (\<lambda>x. restaurant x = ''Canisius'') (meals d);
          canisiusSalads = filter (\<lambda>x. includes_str (category x) ''salad'') canisius;
          canisiusFood = filter (\<lambda>x. \<not> includes_str (category x) ''salad'') canisius;
          noData = (length mensa = 0 \<and> length reimanns = 0 \<and> length canisius = 0 \<and> length neuburg = 0)
      in
        (if length mensa > 0 then
           [RestaurantHeader (t ''list.titles.cafeteria'')] @
           (if length mensaFood > 0 then
              [KindHeader (t ''list.titles.meals''), Meals (entries ''mensa-food-'' mensaFood)]
            else []) @
           (if length mensaSoups > 0 then
              [KindHeader (t ''list.titles.soups''), Meals (entries ''mensa-soup-'' mensaSoups)]
            else [])
         else []) @
        (if length neuburg > 0 then
           [RestaurantHeader (t ''list.titles.neuburg'')] @
           (if length neuburgFood > 0 then
              [KindHeader (t ''list.titles.meals''), Meals (entries ''mensa-food-'' neuburgFood)]
            else [])
         else []) @
        (if length reimanns > 0 then
           [RestaurantHeader ''Reimanns''] @
           (if length reimannsFood > 0 then
              [KindHeader (t ''list.titles.meals''), Meals (entries ''reimanns-food-'' reimannsFood)]
            else []) @
           (if length reimannsSalad > 0 then
              [KindHeader (t ''list.titles.salads''), Meals (entries ''reimanns-salad-'' reimannsSalad)]
            else [])
         else []) @
        (if length canisius > 0 then
           [RestaurantHeader ''Canisiuskonvikt''] @
           (if length canisiusFood > 0 then
              [KindHeader (t ''list.titles.meals''), Meals (entries ''canisius-food-'' canisiusFood)]
            else []) @
           (if length canisiusSalads > 0 then
              [KindHeader (t ''list.titles.salads''), Meals (entries ''canisius-salad-'' canisiusSalads)]
            else [])
         else []) @
        (if noData then [NoMealInfo (t ''error.dataUnavailable'')] else []))"

text \<open>The lists of meals on a tab, each as the meals it shows, and whether the note is on it.\<close>

fun meal_lists :: "node list \<Rightarrow> meal list list" where
  "meal_lists [] = []"
| "meal_lists (Meals es # ns) = map snd es # meal_lists ns"
| "meal_lists (n # ns) = meal_lists ns"

fun shows_no_data :: "node list \<Rightarrow> bool" where
  "shows_no_data [] = False"
| "shows_no_data (NoMealInfo msg # ns) = True"
| "shows_no_data (n # ns) = shows_no_data ns"

section \<open>The events card of the dashboard\<close>

record event =
  organizer :: string
  title :: string

text \<open>The data of the Campus Life query.\<close>

record events_data =
  clEvents :: "event list"

text \<open>The state of the card is \<open>calendar\<close>, at first the empty list.\<close>

record card =
  calendar :: "event list"

definition new_card :: card where
  "new_card = \<lparr>calendar = []\<rparr>"

text \<open>The effect \<open>load\<close>: the events replace the calendar; a failure goes to the console only.\<close>

definition load ::
  "string option \<Rightarrow> events_data endpoint \<Rightarrow> network \<Rightarrow> card \<Rightarrow> card \<times> network" where
  "load env server w c =
     (case getCampusLifeEvents env server w of
        (Inr events, w') \<Rightarrow> (c\<lparr>calendar := clEvents events\<rparr>, w')
      | (Inl e, w') \<Rightarrow> (c, w'\<lparr>console := console w' @ [e]\<rparr>))"

text \<open>An item of the list of the card: its key, its first line and its muted second line.\<close>

record item =
  itemKey :: nat
  heading :: string
  muted :: string

definition EventsCard :: "(string \<Rightarrow> string) \<Rightarrow> card \<Rightarrow> item list" where
  "EventsCard t c =
     map (\<lambda>(i, x). \<lparr>itemKey = i, heading = title x,
                     muted = t ''events.organizer.attribute'' @ '' '' @ organizer x\<rparr>)
       (enumerate 0 (take 2 (calendar c)))"

section \<open>Example inputs\<close>

subsection \<open>Example backends and clients\<close>

definition answering :: "response \<Rightarrow> backend" where
  "answering res = (\<lambda>history p. Inr res)"

definition client0 :: client where
  "client0 = \<lparr>cache = Map.empty, session = ''s1'', sent = []\<rparr>"

text \<open>A backend that answers the requests in turn from a list, and fails once the list is used up.\<close>

definition answering_in_turn :: "response list \<Rightarrow> backend" where
  "answering_in_turn rs =
     (\<lambda>history p. case drop (length history) rs of
                      [] \<Rightarrow> Inl (Error ''Network Error'')
                    | r # rest \<Rightarrow> Inr r)"

definition ok :: "jsval \<Rightarrow> response" where
  "ok v = \<lparr>status = JNum 0, data = JArr [JNum 0, v]\<rparr>"

subsection \<open>Example endpoints, meals and events\<close>

definition gql_failing :: "jsval endpoint" where
  "gql_failing = (\<lambda>history url q. Inl (Error ''fetch failed''))"

definition gql_answering :: "'d \<Rightarrow> 'd endpoint" where
  "gql_answering d = (\<lambda>history url q. Inr d)"

definition network0 :: network where
  "network0 = \<lparr>fetched = [], console = []\<rparr>"

text \<open>An example of the two predicates of the food filter: an element of the list is selected.\<close>

definition contains_selected :: "string list option \<Rightarrow> string list \<Rightarrow> bool" where
  "contains_selected xs selection =
     (case xs of None \<Rightarrow> False | Some ys \<Rightarrow> list_ex (\<lambda>x. x \<in> set selection) ys)"

definition pasta :: meal where
  "pasta = \<lparr>mealId = ''m1'', restaurant = ''IngolstadtMensa'', category = ''main'',
            allergens = Some [''Wz'', ''Ei''], flags = Some [''V'']\<rparr>"

definition broth :: meal where
  "broth = \<lparr>mealId = ''m2'', restaurant = ''IngolstadtMensa'', category = ''soup'',
            allergens = None, flags = Some [''veg'']\<rparr>"

definition neuburg_soup :: meal where
  "neuburg_soup = \<lparr>mealId = ''m3'', restaurant = ''NeuburgMensa'', category = ''soup'',
                   allergens = Some [], flags = Some []\<rparr>"

definition monday :: day where
  "monday = \<lparr>timestamp = ''2026-11-02'', meals = [pasta, broth, neuburg_soup]\<rparr>"

definition neuburg_soup_day :: day where
  "neuburg_soup_day = \<lparr>timestamp = ''2026-11-03'', meals = [neuburg_soup]\<rparr>"

definition three_events :: "event list" where
  "three_events =
     [\<lparr>organizer = ''Neuland'', title = ''Hackathon''\<rparr>,
      \<lparr>organizer = ''StuVe'', title = ''Campus Party''\<rparr>,
      \<lparr>organizer = ''Debattierclub'', title = ''Debate Night''\<rparr>]"

section \<open>Properties of the authenticated API client\<close>

lemma requestAuthenticated_sent:
  "sent (snd (requestAuthenticated backend params st)) = sent st @ [with_session (session st) params]"
  by (simp add: requestAuthenticated_def callWithSession_def request_def
      split: sum.splits prod.splits)

lemma requestAuthenticated_cache:
  "cache (snd (requestAuthenticated backend params st)) = cache st"
  by (simp add: requestAuthenticated_def callWithSession_def request_def
      split: sum.splits prod.splits)


lemma requestCached_hit:
  "truthy (cache_get (cache st) k) \<Longrightarrow>
     requestCached backend k p st = (Inr (cache_get (cache st) k), st)"
  by (simp add: requestCached_def)

lemma requestCached_miss:
  "\<not> truthy (cache_get (cache st) k) \<Longrightarrow>
     requestCached backend k p st =
       (case requestAuthenticated backend p st of
          (Inl e, st') \<Rightarrow> (Inl e, st')
        | (Inr resp, st') \<Rightarrow> (Inr resp, st'\<lparr>cache := (cache st')(k \<mapsto> resp)\<rparr>))"
  by (simp add: requestCached_def cache_set_def split: prod.splits sum.splits)




lemma getTimetable_snd:
  "snd (getTimetable backend d detailed st) =
   snd (requestCached backend
          (KEY_GET_TIMETABLE @ ''-'' @ toDateString d @ ''-'' @ (if detailed then ''true'' else ''false''))
          (thiapp ''stpl''
             [(''day'', JNum (getDate d)), (''month'', JNum (getMonth d + 1)),
              (''year'', JNum (getFullYear d)), (''details'', JNum (if detailed then 1 else 0))]) st)"
  unfolding getTimetable_def Let_def
  by (simp split: prod.splits sum.splits split del: if_split)









text \<open>
  C1. Whatever response \<open>res\<close> the request delivers: a status other than the number 0
  makes \<open>requestAuthenticated\<close> throw \<open>APIError(res.status, res.data)\<close>; with status 0, a
  first element \<open>res.data[0]\<close> other than the number 0 makes it throw
  \<open>APIError(res.data[0], res.data[1])\<close>; and it returns a value exactly when the status
  is 0 and \<open>res.data[0]\<close> is 0, the value being \<open>res.data[1]\<close>.
\<close>

theorem requestAuthenticated_normalizes:
  assumes "backend (sent st) (with_session (session st) params) = Inr res"
  shows "(status res \<noteq> JNum 0 \<longrightarrow>
            fst (requestAuthenticated backend params st) = Inl (APIError (status res) (data res)))
       \<and> (\<forall>d0 d1. status res = JNum 0 \<and> index (data res) 0 = Inr d0 \<and> d0 \<noteq> JNum 0
              \<and> index (data res) 1 = Inr d1 \<longrightarrow>
            fst (requestAuthenticated backend params st) = Inl (APIError d0 d1))
       \<and> (\<forall>v. fst (requestAuthenticated backend params st) = Inr v \<longleftrightarrow>
              status res = JNum 0 \<and> index (data res) 0 = Inr (JNum 0) \<and> index (data res) 1 = Inr v)"
proof -
  let ?r = "fst (requestAuthenticated backend params st)"
  have unfolded: "?r =
      (if status res \<noteq> JNum 0 then Inl (APIError (status res) (data res))
       else (case index (data res) 0 of
               Inl e \<Rightarrow> Inl e
             | Inr d0 \<Rightarrow>
                 if d0 \<noteq> JNum 0 then
                   (case index (data res) 1 of Inl e \<Rightarrow> Inl e | Inr d1 \<Rightarrow> Inl (APIError d0 d1))
                 else
                   (case index (data res) 1 of Inl e \<Rightarrow> Inl e | Inr d1 \<Rightarrow> Inr d1)))"
    using assms
    by (simp add: requestAuthenticated_def callWithSession_def request_def split: sum.splits)
  have old_format: "status res \<noteq> JNum 0 \<longrightarrow> ?r = Inl (APIError (status res) (data res))"
    by (simp add: unfolded)
  have new_format: "\<forall>d0 d1. status res = JNum 0 \<and> index (data res) 0 = Inr d0 \<and> d0 \<noteq> JNum 0
              \<and> index (data res) 1 = Inr d1 \<longrightarrow> ?r = Inl (APIError d0 d1)"
    by (simp add: unfolded)
  have returns: "\<forall>v. ?r = Inr v \<longleftrightarrow>
      status res = JNum 0 \<and> index (data res) 0 = Inr (JNum 0) \<and> index (data res) 1 = Inr v"
    by (auto simp add: unfolded split: sum.splits)
  from old_format new_format returns show ?thesis by blast
qed

theorem requestAuthenticated_normalizes_witness:
  "fst (requestAuthenticated
          (answering \<lparr>status = JNum 0, data = JArr [JNum 0, JStr ''ok'']\<rparr>) [] client0)
     = Inr (JStr ''ok'')
   \<and> fst (requestAuthenticated
          (answering \<lparr>status = JNum 0, data = JArr [JNum (-112), JStr ''Query not possible'']\<rparr>) [] client0)
     = Inl (APIError (JNum (-112)) (JStr ''Query not possible''))
   \<and> fst (requestAuthenticated
          (answering \<lparr>status = JNum (-120), data = JStr ''No Session''\<rparr>) [] client0)
     = Inl (APIError (JNum (-120)) (JStr ''No Session''))"
  using requestAuthenticated_normalizes
      [of "answering \<lparr>status = JNum 0, data = JArr [JNum 0, JStr ''ok'']\<rparr>" client0 "[]"
          "\<lparr>status = JNum 0, data = JArr [JNum 0, JStr ''ok'']\<rparr>"]
    requestAuthenticated_normalizes
      [of "answering \<lparr>status = JNum 0, data = JArr [JNum (-112), JStr ''Query not possible'']\<rparr>"
          client0 "[]" "\<lparr>status = JNum 0, data = JArr [JNum (-112), JStr ''Query not possible'']\<rparr>"]
    requestAuthenticated_normalizes
      [of "answering \<lparr>status = JNum (-120), data = JStr ''No Session''\<rparr>" client0 "[]"
          "\<lparr>status = JNum (-120), data = JStr ''No Session''\<rparr>"]
  by (simp add: answering_def)

text \<open>
  With status 0 and data that is \<open>null\<close> or \<open>undefined\<close>, the read of \<open>res.data[0]\<close>
  throws: the error is a \<open>TypeError\<close>, not an \<open>APIError\<close>.
\<close>

lemma requestAuthenticated_nullish_data:
  assumes "backend (sent st) (with_session (session st) params) = Inr res"
    and "status res = JNum 0"
    and "data res = JNull \<or> data res = JUndefined"
  shows "fst (requestAuthenticated backend params st) = Inl TypeError"
  using assms
  by (auto simp add: requestAuthenticated_def callWithSession_def request_def)


lemma error_data_string:
  "error_data e = JStr s \<longleftrightarrow> (\<exists>c. e = APIError c (JStr s))"
  by (cases e) auto







text \<open>
  C9. When the key has no truthy entry and the authenticated request throws,
  \<open>requestCached\<close> throws the same error. Whenever \<open>requestCached\<close> throws, the error is
  the one of the authenticated request, the cache is as it was, the key still has no
  truthy entry, and the next call with the key makes a request again.
\<close>

theorem requestCached_error_atomic:
  "(\<forall>e st'. \<not> truthy (cache_get (cache st) k) \<and> requestAuthenticated backend p st = (Inl e, st') \<longrightarrow>
       requestCached backend k p st = (Inl e, st'))
   \<and> (\<forall>e st'. requestCached backend k p st = (Inl e, st') \<longrightarrow>
         requestAuthenticated backend p st = (Inl e, st')
       \<and> cache st' = cache st
       \<and> \<not> truthy (cache_get (cache st') k)
       \<and> (\<forall>backend2 p2.
            sent (snd (requestCached backend2 k p2 st')) = sent st' @ [with_session (session st') p2]))"
proof (intro conjI allI impI)
  fix e st'
  assume "\<not> truthy (cache_get (cache st) k) \<and> requestAuthenticated backend p st = (Inl e, st')"
  then show "requestCached backend k p st = (Inl e, st')"
    by (simp add: requestCached_miss)
next
  fix e st'
  assume thrown: "requestCached backend k p st = (Inl e, st')"
  have miss: "\<not> truthy (cache_get (cache st) k)"
  proof
    assume "truthy (cache_get (cache st) k)"
    then have "requestCached backend k p st = (Inr (cache_get (cache st) k), st)"
      by (rule requestCached_hit)
    with thrown show False by simp
  qed
  with thrown show underlying: "requestAuthenticated backend p st = (Inl e, st')"
    by (auto simp: requestCached_miss split: prod.splits sum.splits)
  then show unchanged: "cache st' = cache st"
    using requestAuthenticated_cache [of backend p st] by simp
  with miss show still_miss: "\<not> truthy (cache_get (cache st') k)" by simp
  fix backend2 p2
  from still_miss
  show "sent (snd (requestCached backend2 k p2 st')) = sent st' @ [with_session (session st') p2]"
    using requestAuthenticated_sent [of backend2 p2 st']
    by (auto simp: requestCached_miss split: prod.splits sum.splits)
qed

theorem requestCached_error_atomic_witness:
  "requestCached (answering_in_turn []) ''getGrades'' [] client0
     = (Inl (Error ''Network Error''),
        \<lparr>cache = Map.empty, session = ''s1'', sent = [[(''session'', JStr ''s1'')]]\<rparr>)
   \<and> sent (snd (requestCached (answering_in_turn []) ''getGrades'' []
                  \<lparr>cache = Map.empty, session = ''s1'', sent = [[(''session'', JStr ''s1'')]]\<rparr>))
     = [[(''session'', JStr ''s1'')], [(''session'', JStr ''s1'')]]"
proof -
  let ?st' = "\<lparr>cache = Map.empty, session = ''s1'', sent = [[(''session'', JStr ''s1'')]]\<rparr>"
  have miss: "\<not> truthy (cache_get (cache client0) ''getGrades'')"
    by (simp add: client0_def cache_get_def)
  have req: "requestAuthenticated (answering_in_turn []) [] client0 = (Inl (Error ''Network Error''), ?st')"
    by (simp add: requestAuthenticated_def callWithSession_def request_def answering_in_turn_def
        client0_def with_session_def)
  note atomic = requestCached_error_atomic [of client0 "''getGrades''" "answering_in_turn []" "[]"]
  from atomic miss req
  have thrown: "requestCached (answering_in_turn []) ''getGrades'' [] client0 = (Inl (Error ''Network Error''), ?st')"
    by blast
  with atomic
  have "sent (snd (requestCached (answering_in_turn []) ''getGrades'' [] ?st'))
          = sent ?st' @ [with_session (session ?st') []]"
    by blast
  with thrown show ?thesis by (simp add: with_session_def)
qed

text \<open>
  C10, as the code has it. \<open>getExams\<close> returns what its cached request returns, and
  \<open>[]\<close> when that request throws an error whose data is \<open>No exam data available\<close> or
  \<open>Query not possible\<close>; so it returns \<open>[]\<close> exactly when the request throws such an
  error or itself returns \<open>[]\<close>. \<open>getTimetable\<close> returns \<open>{ timetable: [] }\<close> exactly when
  its cached request throws an error whose data is \<open>Query not possible\<close> or
  \<open>Time table does not exist\<close>. Each method throws exactly the other errors of its
  request, unchanged, and \<open>getTimetable\<close> also the \<open>TypeError\<close> of reading a response that
  is \<open>null\<close> or \<open>undefined\<close>. Only an \<open>APIError\<close> has data (\<open>error_data_string\<close>). Neither
  method changes the client beyond what its cached request does.
\<close>

theorem getExams_getTimetable_results:
  "(\<forall>v. fst (getExams backend st) = Inr v \<longleftrightarrow>
        fst (requestCached backend KEY_GET_EXAMS (thiapp ''exams'' [(''modus'', JStr ''1'')]) st) = Inr v
      \<or> (v = JArr [] \<and>
          ((\<exists>c. fst (requestCached backend KEY_GET_EXAMS (thiapp ''exams'' [(''modus'', JStr ''1'')]) st)
                  = Inl (APIError c (JStr ''No exam data available'')))
         \<or> (\<exists>c. fst (requestCached backend KEY_GET_EXAMS (thiapp ''exams'' [(''modus'', JStr ''1'')]) st)
                  = Inl (APIError c (JStr ''Query not possible''))))))
   \<and> (\<forall>e. fst (getExams backend st) = Inl e \<longleftrightarrow>
        fst (requestCached backend KEY_GET_EXAMS (thiapp ''exams'' [(''modus'', JStr ''1'')]) st) = Inl e
      \<and> error_data e \<noteq> JStr ''No exam data available''
      \<and> error_data e \<noteq> JStr ''Query not possible'')
   \<and> snd (getExams backend st)
       = snd (requestCached backend KEY_GET_EXAMS (thiapp ''exams'' [(''modus'', JStr ''1'')]) st)
   \<and> (fst (getTimetable backend d detailed st) = Inr (JObj [(''timetable'', JArr [])]) \<longleftrightarrow>
        (\<exists>c. fst (requestCached backend
                 (KEY_GET_TIMETABLE @ ''-'' @ toDateString d @ ''-'' @ (if detailed then ''true'' else ''false''))
                 (thiapp ''stpl''
                    [(''day'', JNum (getDate d)), (''month'', JNum (getMonth d + 1)),
                     (''year'', JNum (getFullYear d)), (''details'', JNum (if detailed then 1 else 0))]) st)
               = Inl (APIError c (JStr ''Query not possible'')))
      \<or> (\<exists>c. fst (requestCached backend
                 (KEY_GET_TIMETABLE @ ''-'' @ toDateString d @ ''-'' @ (if detailed then ''true'' else ''false''))
                 (thiapp ''stpl''
                    [(''day'', JNum (getDate d)), (''month'', JNum (getMonth d + 1)),
                     (''year'', JNum (getFullYear d)), (''details'', JNum (if detailed then 1 else 0))]) st)
               = Inl (APIError c (JStr ''Time table does not exist''))))
   \<and> (\<forall>e. fst (getTimetable backend d detailed st) = Inl e \<longleftrightarrow>
        (fst (requestCached backend
                 (KEY_GET_TIMETABLE @ ''-'' @ toDateString d @ ''-'' @ (if detailed then ''true'' else ''false''))
                 (thiapp ''stpl''
                    [(''day'', JNum (getDate d)), (''month'', JNum (getMonth d + 1)),
                     (''year'', JNum (getFullYear d)), (''details'', JNum (if detailed then 1 else 0))]) st)
               = Inl e
         \<and> error_data e \<noteq> JStr ''Query not possible''
         \<and> error_data e \<noteq> JStr ''Time table does not exist'')
      \<or> (e = TypeError \<and>
          (\<exists>res. fst (requestCached backend
                 (KEY_GET_TIMETABLE @ ''-'' @ toDateString d @ ''-'' @ (if detailed then ''true'' else ''false''))
                 (thiapp ''stpl''
                    [(''day'', JNum (getDate d)), (''month'', JNum (getMonth d + 1)),
                     (''year'', JNum (getFullYear d)), (''details'', JNum (if detailed then 1 else 0))]) st)
               = Inr res \<and> (res = JNull \<or> res = JUndefined))))
   \<and> snd (getTimetable backend d detailed st)
       = snd (requestCached backend
                 (KEY_GET_TIMETABLE @ ''-'' @ toDateString d @ ''-'' @ (if detailed then ''true'' else ''false''))
                 (thiapp ''stpl''
                    [(''day'', JNum (getDate d)), (''month'', JNum (getMonth d + 1)),
                     (''year'', JNum (getFullYear d)), (''details'', JNum (if detailed then 1 else 0))]) st)"
proof -
  define rc where "rc = requestCached backend KEY_GET_EXAMS (thiapp ''exams'' [(''modus'', JStr ''1'')]) st"
  define rct where "rct = requestCached backend
                 (KEY_GET_TIMETABLE @ ''-'' @ toDateString d @ ''-'' @ (if detailed then ''true'' else ''false''))
                 (thiapp ''stpl''
                    [(''day'', JNum (getDate d)), (''month'', JNum (getMonth d + 1)),
                     (''year'', JNum (getFullYear d)), (''details'', JNum (if detailed then 1 else 0))]) st"
  have exams: "getExams backend st =
     (case rc of
        (Inl e, st') \<Rightarrow>
          (if error_data e = JStr ''No exam data available'' \<or> error_data e = JStr ''Query not possible''
           then Inr (JArr []) else Inl e, st')
      | (Inr res, st') \<Rightarrow> (Inr res, st'))"
    unfolding rc_def
    by (simp add: getExams_def exams_catch_def split: prod.splits sum.splits)
  have timetable: "getTimetable backend d detailed st =
     (case rct of
        (Inl e, st') \<Rightarrow>
          (if error_data e = JStr ''Query not possible'' \<or> error_data e = JStr ''Time table does not exist''
           then Inr (JObj [(''timetable'', JArr [])]) else Inl e, st')
      | (Inr res, st') \<Rightarrow>
          (if res = JNull \<or> res = JUndefined then (Inl TypeError, st')
           else (case (index res 0, index res 1, index res 2) of
                   (Inr semester, Inr holidays, Inr timetable) \<Rightarrow>
                     (Inr (JObj [(''semester'', semester), (''holidays'', holidays),
                                 (''timetable'', timetable)]), st')
                 | other \<Rightarrow> (Inl TypeError, st'))))"
  proof -
    obtain r st' where r: "rct = (r, st')" by (cases rct)
    show ?thesis
    proof (cases r)
      case (Inl e)
      with r show ?thesis
        unfolding getTimetable_def Let_def rct_def [symmetric]
        by (simp add: timetable_catch_def)
    next
      case (Inr res)
      with r show ?thesis
        unfolding getTimetable_def Let_def rct_def [symmetric]
        by (cases res) (simp_all add: timetable_catch_def)
    qed
  qed
  have e1: "\<forall>v. fst (getExams backend st) = Inr v \<longleftrightarrow>
        fst rc = Inr v
      \<or> (v = JArr [] \<and>
          ((\<exists>c. fst rc = Inl (APIError c (JStr ''No exam data available'')))
         \<or> (\<exists>c. fst rc = Inl (APIError c (JStr ''Query not possible'')))))"
  proof
    fix v
    obtain r st' where r: "rc = (r, st')" by (cases rc)
    show "fst (getExams backend st) = Inr v \<longleftrightarrow>
        fst rc = Inr v
      \<or> (v = JArr [] \<and>
          ((\<exists>c. fst rc = Inl (APIError c (JStr ''No exam data available'')))
         \<or> (\<exists>c. fst rc = Inl (APIError c (JStr ''Query not possible'')))))"
    proof (cases r)
      case (Inl e)
      with r show ?thesis
        by (cases e) (auto simp add: exams)
    next
      case (Inr res)
      with r show ?thesis by (auto simp add: exams)
    qed
  qed
  have e2: "\<forall>e. fst (getExams backend st) = Inl e \<longleftrightarrow>
        fst rc = Inl e
      \<and> error_data e \<noteq> JStr ''No exam data available''
      \<and> error_data e \<noteq> JStr ''Query not possible''"
  proof
    fix e
    obtain r st' where r: "rc = (r, st')" by (cases rc)
    then show "fst (getExams backend st) = Inl e \<longleftrightarrow>
        fst rc = Inl e
      \<and> error_data e \<noteq> JStr ''No exam data available''
      \<and> error_data e \<noteq> JStr ''Query not possible''"
      by (cases r) (auto simp add: exams)
  qed
  have e3: "snd (getExams backend st) = snd rc"
    by (cases rc) (simp add: exams split: sum.splits)
  have t1: "fst (getTimetable backend d detailed st) = Inr (JObj [(''timetable'', JArr [])]) \<longleftrightarrow>
        (\<exists>c. fst rct = Inl (APIError c (JStr ''Query not possible'')))
      \<or> (\<exists>c. fst rct = Inl (APIError c (JStr ''Time table does not exist'')))"
  proof -
    obtain r st' where r: "rct = (r, st')" by (cases rct)
    show ?thesis
    proof (cases r)
      case (Inl e)
      with r show ?thesis by (cases e) (auto simp add: timetable)
    next
      case (Inr res)
      with r show ?thesis
        by (auto simp add: timetable split: sum.splits)
    qed
  qed
  have t2: "\<forall>e. fst (getTimetable backend d detailed st) = Inl e \<longleftrightarrow>
        (fst rct = Inl e
         \<and> error_data e \<noteq> JStr ''Query not possible''
         \<and> error_data e \<noteq> JStr ''Time table does not exist'')
      \<or> (e = TypeError \<and> (\<exists>res. fst rct = Inr res \<and> (res = JNull \<or> res = JUndefined)))"
  proof
    fix e
    obtain r st' where r: "rct = (r, st')" by (cases rct)
    show "fst (getTimetable backend d detailed st) = Inl e \<longleftrightarrow>
        (fst rct = Inl e
         \<and> error_data e \<noteq> JStr ''Query not possible''
         \<and> error_data e \<noteq> JStr ''Time table does not exist'')
      \<or> (e = TypeError \<and> (\<exists>res. fst rct = Inr res \<and> (res = JNull \<or> res = JUndefined)))"
    proof (cases r)
      case (Inl e')
      with r show ?thesis by (auto simp add: timetable)
    next
      case (Inr res)
      with r show ?thesis
        by (cases res) (auto simp add: timetable)
    qed
  qed
  have t3: "snd (getTimetable backend d detailed st) = snd rct"
    unfolding rct_def by (rule getTimetable_snd)
  from e1 e2 e3 t1 t2 t3 show ?thesis
    unfolding rc_def rct_def by blast
qed


theorem getExams_getTimetable_results_witness:
  "fst (getExams (answering \<lparr>status = JNum (-112), data = JStr ''No exam data available''\<rparr>) client0)
     = Inr (JArr [])
   \<and> fst (getExams (answering \<lparr>status = JNum (-999), data = JStr ''Service not available''\<rparr>) client0)
     = Inl (APIError (JNum (-999)) (JStr ''Service not available''))
   \<and> fst (getExams (answering (ok (JArr [JStr ''exam'']))) client0) = Inr (JArr [JStr ''exam''])
   \<and> fst (getTimetable (answering \<lparr>status = JNum 0, data = JArr [JNum (-112), JStr ''Time table does not exist'']\<rparr>)
             \<lparr>toDateString = ''Mon Nov 02 2026'', getDate = 2, getMonth = 10, getFullYear = 2026\<rparr>
             False client0)
     = Inr (JObj [(''timetable'', JArr [])])
   \<and> fst (getTimetable (answering (ok JNull))
             \<lparr>toDateString = ''Mon Nov 02 2026'', getDate = 2, getMonth = 10, getFullYear = 2026\<rparr>
             False client0)
     = Inl TypeError"
proof -
  let ?B1 = "answering \<lparr>status = JNum (-112), data = JStr ''No exam data available''\<rparr>"
  let ?B2 = "answering \<lparr>status = JNum (-999), data = JStr ''Service not available''\<rparr>"
  let ?B3 = "answering \<lparr>status = JNum 0, data = JArr [JNum (-112), JStr ''Time table does not exist'']\<rparr>"
  let ?B4 = "answering (ok (JArr [JStr ''exam'']))"
  let ?B5 = "answering (ok JNull)"
  let ?d = "\<lparr>toDateString = ''Mon Nov 02 2026'', getDate = 2, getMonth = 10, getFullYear = 2026\<rparr>"
  have r1: "fst (requestCached ?B1 KEY_GET_EXAMS (thiapp ''exams'' [(''modus'', JStr ''1'')]) client0)
      = Inl (APIError (JNum (-112)) (JStr ''No exam data available''))"
    by (simp add: requestCached_def requestAuthenticated_def callWithSession_def request_def
        answering_def client0_def with_session_def cache_get_def thiapp_def)
  have r2: "fst (requestCached ?B2 KEY_GET_EXAMS (thiapp ''exams'' [(''modus'', JStr ''1'')]) client0)
      = Inl (APIError (JNum (-999)) (JStr ''Service not available''))"
    by (simp add: requestCached_def requestAuthenticated_def callWithSession_def request_def
        answering_def client0_def with_session_def cache_get_def thiapp_def)
  have r4: "fst (requestCached ?B4 KEY_GET_EXAMS (thiapp ''exams'' [(''modus'', JStr ''1'')]) client0)
      = Inr (JArr [JStr ''exam''])"
    by (simp add: requestCached_def requestAuthenticated_def callWithSession_def request_def
        answering_def ok_def client0_def with_session_def cache_get_def thiapp_def)
  have r3: "fst (requestCached ?B3
                  (KEY_GET_TIMETABLE @ ''-'' @ toDateString ?d @ ''-'' @ (if False then ''true'' else ''false''))
                  (thiapp ''stpl''
                     [(''day'', JNum (getDate ?d)), (''month'', JNum (getMonth ?d + 1)),
                      (''year'', JNum (getFullYear ?d)), (''details'', JNum (if False then 1 else 0))]) client0)
      = Inl (APIError (JNum (-112)) (JStr ''Time table does not exist''))"
    by (simp add: requestCached_def requestAuthenticated_def callWithSession_def request_def
        answering_def client0_def with_session_def cache_get_def thiapp_def)
  have r5: "fst (requestCached ?B5
                  (KEY_GET_TIMETABLE @ ''-'' @ toDateString ?d @ ''-'' @ (if False then ''true'' else ''false''))
                  (thiapp ''stpl''
                     [(''day'', JNum (getDate ?d)), (''month'', JNum (getMonth ?d + 1)),
                      (''year'', JNum (getFullYear ?d)), (''details'', JNum (if False then 1 else 0))]) client0)
      = Inr JNull"
    by (simp add: requestCached_def requestAuthenticated_def callWithSession_def request_def
        answering_def ok_def client0_def with_session_def cache_get_def thiapp_def)
  have e1: "fst (getExams ?B1 client0) = Inr (JArr [])"
    using getExams_getTimetable_results [of ?B1 client0 ?d False] r1 by simp
  have e2: "fst (getExams ?B2 client0) = Inl (APIError (JNum (-999)) (JStr ''Service not available''))"
    using getExams_getTimetable_results [of ?B2 client0 ?d False] r2 by simp
  have e4: "fst (getExams ?B4 client0) = Inr (JArr [JStr ''exam''])"
    using getExams_getTimetable_results [of ?B4 client0 ?d False] r4 by simp
  have e3: "fst (getTimetable ?B3 ?d False client0) = Inr (JObj [(''timetable'', JArr [])])"
    using getExams_getTimetable_results [of ?B3 client0 ?d False] r3 by simp
  have e5: "fst (getTimetable ?B5 ?d False client0) = Inl TypeError"
    using getExams_getTimetable_results [of ?B5 client0 ?d False] r5 by simp
  from e1 e2 e4 e3 e5 show ?thesis by simp
qed

text \<open>
  C10 as the specification states it fails for \<open>getExams\<close>: a request that succeeds with
  the empty list makes \<open>getExams\<close> return \<open>[]\<close> although nothing was thrown.
\<close>

theorem getExams_getTimetable_results_counterexample:
  "fst (requestCached (answering (ok (JArr []))) KEY_GET_EXAMS
          (thiapp ''exams'' [(''modus'', JStr ''1'')]) client0) = Inr (JArr [])
   \<and> fst (getExams (answering (ok (JArr []))) client0) = Inr (JArr [])"
  by (simp add: getExams_def requestCached_def requestAuthenticated_def callWithSession_def
      request_def answering_def ok_def client0_def with_session_def cache_get_def thiapp_def)

section \<open>Properties of the faculty extraction\<close>

lemma find_in_filter:
  "find P (filter Q xs) = Some x \<Longrightarrow> x \<in> set xs \<and> Q x"
  by (induction xs) (auto split: if_splits)

lemma extractFaculty_with_string_po_url:
  assumes "field d ''persdata'' = Inr p" and "field p ''po_url'' = Inr (JStr u)"
  shows "\<exists>r. extractFacultyFromPersonalData tbl d = Inr r \<and>
           (r = JNull \<or> r = JUndefined \<or>
            (\<exists>f. r = JStr f \<and> f \<in> fst ` set tbl \<and> f \<noteq> ''_source''))"
proof -
  obtain stg where stg: "field p ''stg'' = Inr stg"
    using assms(2) by (cases p) auto
  let ?faculties = "filter (\<lambda>key. key \<noteq> ''_source'') (map fst tbl)"
  have found_ok: "found (find P (filter Q ?faculties)) = JUndefined \<or>
      (\<exists>f. found (find P (filter Q ?faculties)) = JStr f \<and> f \<in> fst ` set tbl \<and> f \<noteq> ''_source'')"
    for P Q
  proof (cases "find P (filter Q ?faculties)")
    case None
    then show ?thesis by simp
  next
    case (Some f)
    then have "f \<in> set ?faculties" by (auto dest: find_in_filter)
    with Some show ?thesis by auto
  qed
  have found_ok': "found (find P ?faculties) = JUndefined \<or>
      (\<exists>f. found (find P ?faculties) = JStr f \<and> f \<in> fst ` set tbl \<and> f \<noteq> ''_source'')"
    for P
    using found_ok [of P "\<lambda>x. True"] by simp
  show ?thesis
    using assms stg found_ok found_ok'
    by (simp add: extractFacultyFromPersonalData_def Let_def)
qed

text \<open>
  C3. The helper is not total: for personal data with a course short name \<open>stg\<close> and no
  \<open>po_url\<close> the guard lets the payload pass, and \<open>data.persdata.po_url.split\<close> then
  throws a \<open>TypeError\<close>, whatever the table of course short names is.
\<close>

theorem extractFaculty_throws_without_po_url:
  "extractFacultyFromPersonalData tbl (JObj [(''persdata'', JObj [(''stg'', JStr ''INF'')])])
     = Inl TypeError"
  by (simp add: extractFacultyFromPersonalData_def)

section \<open>Properties of the meal plan page\<close>

text \<open>
  C4. For every meal and every two selections, \<open>showMatch\<close> is true exactly when the meal
  contains a selected allergen or matches a selected preference.
\<close>

theorem showMatch_is_disjunction:
  "showMatch containsSelectedAllergen containsSelectedPreference allergenSelection preferencesSelection m
     \<longleftrightarrow> containsSelectedAllergen (allergens m) allergenSelection
          \<or> containsSelectedPreference (flags m) preferencesSelection"
  unfolding showMatch_def by blast

theorem showMatch_is_disjunction_witness:
  "showMatch contains_selected contains_selected [''Ei''] [''veg''] pasta
   \<and> showMatch contains_selected contains_selected [''Ei''] [''veg''] broth
   \<and> \<not> showMatch contains_selected contains_selected [''Ei''] [''veg''] neuburg_soup"
  using showMatch_is_disjunction [of contains_selected contains_selected "[''Ei'']" "[''veg'']" pasta]
    showMatch_is_disjunction [of contains_selected contains_selected "[''Ei'']" "[''veg'']" broth]
    showMatch_is_disjunction [of contains_selected contains_selected "[''Ei'']" "[''veg'']" neuburg_soup]
  by (simp add: contains_selected_def pasta_def broth_def neuburg_soup_def)

lemma map_snd_keyed:
  "map snd (map (\<lambda>(idx, m). (f idx, m)) (enumerate n xs)) = xs"
  by (induction xs arbitrary: n) simp_all

lemma entries_meals: "map snd (entries prefix xs) = xs"
  unfolding entries_def by (rule map_snd_keyed)

lemma meal_lists_append: "meal_lists (ns @ ns') = meal_lists ns @ meal_lists ns'"
  by (induction ns rule: meal_lists.induct) simp_all

lemma shows_no_data_append: "shows_no_data (ns @ ns') \<longleftrightarrow> shows_no_data ns \<or> shows_no_data ns'"
  by (induction ns rule: shows_no_data.induct) simp_all

lemma section_two_lists:
  "meal_lists
     (if length A > 0 then
        [RestaurantHeader h] @
        (if length (filter P A) > 0 then [KindHeader k1, Meals (entries p1 (filter P A))] else []) @
        (if length (filter Q A) > 0 then [KindHeader k2, Meals (entries p2 (filter Q A))] else [])
      else [])
   = filter (\<lambda>l. l \<noteq> []) [filter P A, filter Q A]"
  by (cases A) (simp_all add: entries_meals)

lemma section_one_list:
  "meal_lists
     (if length A > 0 then
        [RestaurantHeader h] @
        (if length (filter P A) > 0 then [KindHeader k1, Meals (entries p1 (filter P A))] else [])
      else [])
   = filter (\<lambda>l. l \<noteq> []) [filter P A]"
  by (cases A) (simp_all add: entries_meals)

lemma note_lists: "meal_lists (if b then [NoMealInfo msg] else []) = []"
  by simp

lemma section_two_no_data:
  "shows_no_data
     (if length A > 0 then
        [RestaurantHeader h] @
        (if length A1 > 0 then [KindHeader k1, Meals es1] else []) @
        (if length A2 > 0 then [KindHeader k2, Meals es2] else [])
      else []) = False"
  by simp

lemma section_one_no_data:
  "shows_no_data
     (if length A > 0 then
        [RestaurantHeader h] @
        (if length A1 > 0 then [KindHeader k1, Meals es1] else [])
      else []) = False"
  by simp

lemma note_no_data: "shows_no_data (if b then [NoMealInfo msg] else []) = b"
  by simp

lemma meal_lists_renderMealDay:
  "meal_lists (renderMealDay t d) =
     filter (\<lambda>l. l \<noteq> [])
       [filter (\<lambda>x. \<not> includes_str (category x) ''soup'')
          (filter (\<lambda>x. restaurant x = ''IngolstadtMensa'') (meals d)),
        filter (\<lambda>x. includes_str (category x) ''soup'')
          (filter (\<lambda>x. restaurant x = ''IngolstadtMensa'') (meals d)),
        filter (\<lambda>x. \<not> includes_str (category x) ''soup'')
          (filter (\<lambda>x. restaurant x = ''NeuburgMensa'') (meals d)),
        filter (\<lambda>x. \<not> includes_str (category x) ''salad'')
          (filter (\<lambda>x. restaurant x = ''Reimanns'') (meals d)),
        filter (\<lambda>x. includes_str (category x) ''salad'')
          (filter (\<lambda>x. restaurant x = ''Reimanns'') (meals d)),
        filter (\<lambda>x. \<not> includes_str (category x) ''salad'')
          (filter (\<lambda>x. restaurant x = ''Canisius'') (meals d)),
        filter (\<lambda>x. includes_str (category x) ''salad'')
          (filter (\<lambda>x. restaurant x = ''Canisius'') (meals d))]"
  unfolding renderMealDay_def Let_def
  apply (simp only: meal_lists_append section_two_lists section_one_list note_lists)
  by (simp only: filter_append [symmetric] append.simps append_Nil2)

lemma shows_no_data_renderMealDay:
  "shows_no_data (renderMealDay t d) \<longleftrightarrow>
     filter (\<lambda>x. restaurant x = ''IngolstadtMensa'') (meals d) = [] \<and>
     filter (\<lambda>x. restaurant x = ''Reimanns'') (meals d) = [] \<and>
     filter (\<lambda>x. restaurant x = ''Canisius'') (meals d) = [] \<and>
     filter (\<lambda>x. restaurant x = ''NeuburgMensa'') (meals d) = []"
  unfolding renderMealDay_def Let_def
  by (simp only: shows_no_data_append section_two_no_data section_one_no_data note_no_data
        length_0_conv simp_thms)


lemma lists_with_meal:
  "filter (\<lambda>l. m \<in> set l) (filter (\<lambda>l. l \<noteq> []) ls) = filter (\<lambda>l. m \<in> set l) ls"
  by (induction ls) auto

text \<open>
  What the tab of a day shows. A meal of the restaurant \<open>IngolstadtMensa\<close>, \<open>Reimanns\<close>
  or \<open>Canisius\<close> is in exactly one list: the list of the meals of its restaurant on its
  side of the split (the category contains \<open>soup\<close> or not for the Mensa, \<open>salad\<close> or not
  for Reimanns and Canisius), in the order of the day. A meal of \<open>NeuburgMensa\<close> whose
  category does not contain \<open>soup\<close> is in exactly one list, the meals of Neuburg; one
  whose category contains \<open>soup\<close> is in no list. A meal of any other restaurant is in no
  list. The note that there is no data is shown exactly when the day has no meal of any
  of the four restaurants.
\<close>

lemma renderMealDay_partition:
  "(\<forall>m \<in> set (meals d).
      (restaurant m = ''IngolstadtMensa'' \<longrightarrow>
         filter (\<lambda>l. m \<in> set l) (meal_lists (renderMealDay t d)) =
           [filter (\<lambda>x. restaurant x = ''IngolstadtMensa'' \<and>
                       (includes_str (category x) ''soup'' \<longleftrightarrow> includes_str (category m) ''soup''))
              (meals d)])
    \<and> (restaurant m = ''Reimanns'' \<longrightarrow>
         filter (\<lambda>l. m \<in> set l) (meal_lists (renderMealDay t d)) =
           [filter (\<lambda>x. restaurant x = ''Reimanns'' \<and>
                       (includes_str (category x) ''salad'' \<longleftrightarrow> includes_str (category m) ''salad''))
              (meals d)])
    \<and> (restaurant m = ''Canisius'' \<longrightarrow>
         filter (\<lambda>l. m \<in> set l) (meal_lists (renderMealDay t d)) =
           [filter (\<lambda>x. restaurant x = ''Canisius'' \<and>
                       (includes_str (category x) ''salad'' \<longleftrightarrow> includes_str (category m) ''salad''))
              (meals d)])
    \<and> (restaurant m = ''NeuburgMensa'' \<and> \<not> includes_str (category m) ''soup'' \<longrightarrow>
         filter (\<lambda>l. m \<in> set l) (meal_lists (renderMealDay t d)) =
           [filter (\<lambda>x. restaurant x = ''NeuburgMensa'' \<and> \<not> includes_str (category x) ''soup'')
              (meals d)])
    \<and> (restaurant m = ''NeuburgMensa'' \<and> includes_str (category m) ''soup'' \<longrightarrow>
         filter (\<lambda>l. m \<in> set l) (meal_lists (renderMealDay t d)) = [])
    \<and> (restaurant m \<notin> {''IngolstadtMensa'', ''NeuburgMensa'', ''Reimanns'', ''Canisius''} \<longrightarrow>
         filter (\<lambda>l. m \<in> set l) (meal_lists (renderMealDay t d)) = []))
   \<and> (shows_no_data (renderMealDay t d) \<longleftrightarrow>
         filter (\<lambda>x. restaurant x = ''IngolstadtMensa'') (meals d) = [] \<and>
         filter (\<lambda>x. restaurant x = ''Reimanns'') (meals d) = [] \<and>
         filter (\<lambda>x. restaurant x = ''Canisius'') (meals d) = [] \<and>
         filter (\<lambda>x. restaurant x = ''NeuburgMensa'') (meals d) = [])"
proof (intro conjI ballI impI)
  show "shows_no_data (renderMealDay t d) \<longleftrightarrow>
         filter (\<lambda>x. restaurant x = ''IngolstadtMensa'') (meals d) = [] \<and>
         filter (\<lambda>x. restaurant x = ''Reimanns'') (meals d) = [] \<and>
         filter (\<lambda>x. restaurant x = ''Canisius'') (meals d) = [] \<and>
         filter (\<lambda>x. restaurant x = ''NeuburgMensa'') (meals d) = []"
    by (rule shows_no_data_renderMealDay)
next
  fix m
  assume m: "m \<in> set (meals d)" and r: "restaurant m = ''IngolstadtMensa''"
  show "filter (\<lambda>l. m \<in> set l) (meal_lists (renderMealDay t d)) =
           [filter (\<lambda>x. restaurant x = ''IngolstadtMensa'' \<and>
                       (includes_str (category x) ''soup'' \<longleftrightarrow> includes_str (category m) ''soup''))
              (meals d)]"
    using m r
    by (cases "includes_str (category m) ''soup''")
      (simp_all only: meal_lists_renderMealDay lists_with_meal, simp_all)
next
  fix m
  assume m: "m \<in> set (meals d)" and r: "restaurant m = ''Reimanns''"
  show "filter (\<lambda>l. m \<in> set l) (meal_lists (renderMealDay t d)) =
           [filter (\<lambda>x. restaurant x = ''Reimanns'' \<and>
                       (includes_str (category x) ''salad'' \<longleftrightarrow> includes_str (category m) ''salad''))
              (meals d)]"
    using m r
    by (cases "includes_str (category m) ''salad''")
      (simp_all only: meal_lists_renderMealDay lists_with_meal, simp_all)
next
  fix m
  assume m: "m \<in> set (meals d)" and r: "restaurant m = ''Canisius''"
  show "filter (\<lambda>l. m \<in> set l) (meal_lists (renderMealDay t d)) =
           [filter (\<lambda>x. restaurant x = ''Canisius'' \<and>
                       (includes_str (category x) ''salad'' \<longleftrightarrow> includes_str (category m) ''salad''))
              (meals d)]"
    using m r
    by (cases "includes_str (category m) ''salad''")
      (simp_all only: meal_lists_renderMealDay lists_with_meal, simp_all)
next
  fix m
  assume m: "m \<in> set (meals d)"
    and r: "restaurant m = ''NeuburgMensa'' \<and> \<not> includes_str (category m) ''soup''"
  show "filter (\<lambda>l. m \<in> set l) (meal_lists (renderMealDay t d)) =
           [filter (\<lambda>x. restaurant x = ''NeuburgMensa'' \<and> \<not> includes_str (category x) ''soup'')
              (meals d)]"
    using m r by (simp only: meal_lists_renderMealDay lists_with_meal) simp
next
  fix m
  assume m: "m \<in> set (meals d)"
    and r: "restaurant m = ''NeuburgMensa'' \<and> includes_str (category m) ''soup''"
  show "filter (\<lambda>l. m \<in> set l) (meal_lists (renderMealDay t d)) = []"
    using m r by (simp only: meal_lists_renderMealDay lists_with_meal) simp
next
  fix m
  assume m: "m \<in> set (meals d)"
    and r: "restaurant m \<notin> {''IngolstadtMensa'', ''NeuburgMensa'', ''Reimanns'', ''Canisius''}"
  show "filter (\<lambda>l. m \<in> set l) (meal_lists (renderMealDay t d)) = []"
    using m r by (simp only: meal_lists_renderMealDay lists_with_meal) simp
qed

lemma renderMealDay_partition_monday:
  "filter (\<lambda>l. pasta \<in> set l) (meal_lists (renderMealDay id monday)) = [[pasta]]
   \<and> filter (\<lambda>l. broth \<in> set l) (meal_lists (renderMealDay id monday)) = [[broth]]
   \<and> filter (\<lambda>l. neuburg_soup \<in> set l) (meal_lists (renderMealDay id monday)) = []
   \<and> \<not> shows_no_data (renderMealDay id monday)"
proof -
  have day: "meals monday = [pasta, broth, neuburg_soup]"
    by (simp add: monday_def)
  have facts:
    "restaurant pasta = ''IngolstadtMensa''" "\<not> includes_str (category pasta) ''soup''"
    "restaurant broth = ''IngolstadtMensa''" "includes_str (category broth) ''soup''"
    "restaurant neuburg_soup = ''NeuburgMensa''" "includes_str (category neuburg_soup) ''soup''"
    by (simp_all add: pasta_def broth_def neuburg_soup_def)
  from renderMealDay_partition [of monday id] show ?thesis
    unfolding day using facts by simp
qed

text \<open>
  C7. The lists of a day are no partition of its meals: the Mensa in Ingolstadt has a
  list of soups, the Mensa in Neuburg has none, so a soup of \<open>NeuburgMensa\<close> is in no
  list. On a day with that one meal the tab shows the header of the restaurant, no list
  and no note that data is missing.
\<close>

theorem renderMealDay_drops_neuburg_soup:
  "meals neuburg_soup_day = [neuburg_soup]
   \<and> restaurant neuburg_soup = ''NeuburgMensa''
   \<and> renderMealDay id neuburg_soup_day = [RestaurantHeader ''list.titles.neuburg'']
   \<and> meal_lists (renderMealDay id neuburg_soup_day) = []"
  by (simp add: renderMealDay_def neuburg_soup_day_def neuburg_soup_def)

section \<open>Properties of the GraphQL client\<close>

lemma performGraphQLQuery_once:
  "fetched (snd (performGraphQLQuery env server q w)) = fetched w @ [(GRAPHQL_ENDPOINT env, q)]"
  by (simp add: performGraphQLQuery_def gql_request_def split: sum.splits)

lemma performGraphQLQuery_result:
  "fst (performGraphQLQuery env server q w) =
     (case server (fetched w) (GRAPHQL_ENDPOINT env) q of
        Inl e \<Rightarrow> Inl (Error ''GraphQL query failed'')
      | Inr d \<Rightarrow> Inr d)"
  by (simp add: performGraphQLQuery_def gql_request_def split: sum.splits)

text \<open>
  C6. Every call of a query method makes exactly one request, to the one endpoint, and
  its result is the data of the response when the request succeeds and the error
  \<open>GraphQL query failed\<close> when it throws; the same call made again makes a request
  again. \<open>performGraphQLQuery\<close> itself makes exactly the one request for its query, returns
  the data when it succeeds and throws \<open>GraphQL query failed\<close> when it fails.
\<close>

theorem graphql_single_attempt:
  "(\<exists>q. fetched (snd (gql_perform env server c w)) = fetched w @ [(GRAPHQL_ENDPOINT env, q)]
        \<and> fst (gql_perform env server c w) =
            (case server (fetched w) (GRAPHQL_ENDPOINT env) q of
               Inl e \<Rightarrow> Inl (Error ''GraphQL query failed'')
             | Inr d \<Rightarrow> Inr d))
   \<and> length (fetched (snd (gql_perform env server c (snd (gql_perform env server c w)))))
       = length (fetched w) + 2
   \<and> fetched (snd (performGraphQLQuery env server q' w)) = fetched w @ [(GRAPHQL_ENDPOINT env, q')]
   \<and> fst (performGraphQLQuery env server q' w) =
        (case server (fetched w) (GRAPHQL_ENDPOINT env) q' of
           Inl e \<Rightarrow> Inl (Error ''GraphQL query failed'')
         | Inr d \<Rightarrow> Inr d)"
proof -
  obtain q where q: "\<And>w. gql_perform env server c w = performGraphQLQuery env server q w"
    by (cases c)
      (auto simp: getFoodPlan_def getBusPlan_def getTrainPlan_def getParkingData_def
        getCharingStationData_def getCampusLifeEvents_def)
  have one: "fetched (snd (gql_perform env server c w)) = fetched w @ [(GRAPHQL_ENDPOINT env, q)]"
    by (simp add: q performGraphQLQuery_once)
  have result: "fst (gql_perform env server c w) =
            (case server (fetched w) (GRAPHQL_ENDPOINT env) q of
               Inl e \<Rightarrow> Inl (Error ''GraphQL query failed'')
             | Inr d \<Rightarrow> Inr d)"
    by (simp add: q performGraphQLQuery_result)
  have twice: "length (fetched (snd (gql_perform env server c (snd (gql_perform env server c w)))))
       = length (fetched w) + 2"
    by (simp add: q performGraphQLQuery_once)
  from one result twice show ?thesis
    using performGraphQLQuery_once [of env server q' w] performGraphQLQuery_result [of env server q' w]
    by blast
qed

theorem graphql_single_attempt_witness:
  "fst (performGraphQLQuery None gql_failing Parking network0) = Inl (Error ''GraphQL query failed'')
   \<and> fetched (snd (performGraphQLQuery None gql_failing Parking network0))
       = [(''https://api.neuland.app/graphql'', Parking)]
   \<and> fst (performGraphQLQuery None (gql_answering (JArr [])) Parking network0) = Inr (JArr [])
   \<and> length (fetched (snd (gql_perform None gql_failing GetParkingData
                (snd (gql_perform None gql_failing GetParkingData network0))))) = 2"
  using graphql_single_attempt [of None gql_failing GetParkingData network0 Parking]
    graphql_single_attempt [of None "gql_answering (JArr [])" GetParkingData network0 Parking]
  by (simp add: gql_failing_def gql_answering_def network0_def GRAPHQL_ENDPOINT_def)

section \<open>Properties of the events card\<close>

lemma EventsCard_length:
  "length (EventsCard t c) = min 2 (length (calendar c))"
  by (simp add: EventsCard_def)

lemma EventsCard_nth:
  assumes "i < length (EventsCard t c)"
  shows "EventsCard t c ! i =
           \<lparr>itemKey = i, heading = title (calendar c ! i),
            muted = t ''events.organizer.attribute'' @ '' '' @ organizer (calendar c ! i)\<rparr>"
proof -
  from assms have i2: "i < 2" and il: "i < length (calendar c)"
    by (simp_all add: EventsCard_def)
  then have "enumerate 0 (take 2 (calendar c)) ! i = (i, calendar c ! i)"
    by (simp add: nth_enumerate_eq)
  with i2 il show ?thesis
    by (simp add: EventsCard_def)
qed

text \<open>
  C8. The card has an item for each of the first two events of its calendar, in their
  order, and for no other: two items when the calendar has two or more events, as many
  as there are otherwise. The item of an event shows its title and, after the label, its
  organizer. The calendar is the list of events that \<open>getCampusLifeEvents\<close> returned.
\<close>

theorem EventsCard_first_two:
  "length (EventsCard t c) = min 2 (length (calendar c))
   \<and> (\<forall>i < length (EventsCard t c).
         EventsCard t c ! i =
           \<lparr>itemKey = i, heading = title (calendar c ! i),
            muted = t ''events.organizer.attribute'' @ '' '' @ organizer (calendar c ! i)\<rparr>)
   \<and> (\<forall>events w'. getCampusLifeEvents env server w = (Inr events, w') \<longrightarrow>
         fst (load env server w c0) = c0\<lparr>calendar := clEvents events\<rparr>)"
proof (intro conjI allI impI)
  show "length (EventsCard t c) = min 2 (length (calendar c))"
    by (rule EventsCard_length)
next
  fix i
  assume "i < length (EventsCard t c)"
  then show "EventsCard t c ! i =
           \<lparr>itemKey = i, heading = title (calendar c ! i),
            muted = t ''events.organizer.attribute'' @ '' '' @ organizer (calendar c ! i)\<rparr>"
    by (rule EventsCard_nth)
next
  fix events w'
  assume "getCampusLifeEvents env server w = (Inr events, w')"
  then show "fst (load env server w c0) = c0\<lparr>calendar := clEvents events\<rparr>"
    by (simp add: load_def)
qed

theorem EventsCard_first_two_witness:
  "length (EventsCard id \<lparr>calendar = three_events\<rparr>) = 2
   \<and> EventsCard id \<lparr>calendar = three_events\<rparr> ! 1
       = \<lparr>itemKey = 1, heading = ''Campus Party'', muted = ''events.organizer.attribute StuVe''\<rparr>
   \<and> fst (load None (gql_answering \<lparr>clEvents = three_events\<rparr>) network0 new_card)
       = \<lparr>calendar = three_events\<rparr>"
proof -
  note shown = EventsCard_first_two
    [of id "\<lparr>calendar = three_events\<rparr>" None "gql_answering \<lparr>clEvents = three_events\<rparr>"
        network0 new_card]
  have loaded: "getCampusLifeEvents None (gql_answering \<lparr>clEvents = three_events\<rparr>) network0
      = (Inr \<lparr>clEvents = three_events\<rparr>,
         \<lparr>fetched = [(''https://api.neuland.app/graphql'', ClEvents)], console = []\<rparr>)"
    by (simp add: getCampusLifeEvents_def performGraphQLQuery_def gql_request_def
        gql_answering_def network0_def GRAPHQL_ENDPOINT_def)
  have len: "length (EventsCard id \<lparr>calendar = three_events\<rparr>) = 2"
    using shown by (simp add: three_events_def)
  then have second: "EventsCard id \<lparr>calendar = three_events\<rparr> ! 1
       = \<lparr>itemKey = 1, heading = ''Campus Party'', muted = ''events.organizer.attribute StuVe''\<rparr>"
    using shown by (simp add: three_events_def)
  from shown loaded
  have "fst (load None (gql_answering \<lparr>clEvents = three_events\<rparr>) network0 new_card)
       = \<lparr>calendar = three_events\<rparr>"
    by (simp add: new_card_def)
  with len second show ?thesis by simp
qed

end
